theory Spec2Isabelle
  imports Complex_Main "HOL-Library.AList" "HOL-Library.Sublist"
begin

section \<open>Values of the upstream document\<close>

text \<open>
  The decoded upstream body (\<open>resp.json()\<close>) is a tree of Python values. Python's
  \<open>None\<close> is \<open>JNull\<close>; a \<open>dict\<close> is an association list in insertion order,
  read with \<open>map_of\<close>. Python floats are idealised as reals: rounding, overflow and
  the non-finite values \<open>inf\<close> and \<open>nan\<close> are outside the model. An \<open>int\<close> and a
  \<open>float\<close> of the same value are one \<open>JNum\<close>.
\<close>

datatype json =
    JNull
  | JBool bool
  | JNum real
  | JStr string
  | JList "json list"
  | JObj "(string \<times> json) list"

datatype error = AttributeError | TypeError | ValueError

text \<open>Truth value of a Python object, as \<open>if not x\<close> and \<open>x or y\<close> read it.\<close>

fun truthy :: "json \<Rightarrow> bool" where
  "truthy JNull = False"
| "truthy (JBool b) = b"
| "truthy (JNum x) = (x \<noteq> 0)"
| "truthy (JStr s) = (s \<noteq> [])"
| "truthy (JList xs) = (xs \<noteq> [])"
| "truthy (JObj kvs) = (kvs \<noteq> [])"

text \<open>\<open>d.get(k)\<close> on a dict: the value, or \<open>None\<close> when the key is missing.\<close>

definition dict_get :: "(string \<times> json) list \<Rightarrow> string \<Rightarrow> json" where
  "dict_get d k = (case map_of d k of None \<Rightarrow> JNull | Some v \<Rightarrow> v)"

text \<open>\<open>d.get(k, default)\<close>: the default only when the key is missing.\<close>

definition dict_get_default :: "(string \<times> json) list \<Rightarrow> string \<Rightarrow> json \<Rightarrow> json" where
  "dict_get_default d k dflt = (case map_of d k of None \<Rightarrow> dflt | Some v \<Rightarrow> v)"

section \<open>Python string primitives\<close>

definition is_space :: "char \<Rightarrow> bool" where
  "is_space c = (c \<in> set [CHR '' '', CHR 0x09, CHR 0x0A, CHR 0x0B, CHR 0x0C, CHR 0x0D,
                           CHR 0x1C, CHR 0x1D, CHR 0x1E, CHR 0x1F])"

text \<open>\<open>s.strip(chars)\<close> with a predicate for the stripped characters.\<close>

definition py_strip :: "(char \<Rightarrow> bool) \<Rightarrow> string \<Rightarrow> string" where
  "py_strip p s = rev (dropWhile p (rev (dropWhile p s)))"

definition lower_char :: "char \<Rightarrow> char" where
  "lower_char c =
     (case map_of (zip ''ABCDEFGHIJKLMNOPQRSTUVWXYZ'' ''abcdefghijklmnopqrstuvwxyz'') c of
        None \<Rightarrow> c | Some l \<Rightarrow> l)"

text \<open>\<open>s.lower()\<close> on ASCII text.\<close>

definition py_lower :: "string \<Rightarrow> string" where
  "py_lower s = map lower_char s"

text \<open>\<open>p in s\<close> for strings: \<open>p\<close> occurs in \<open>s\<close> as a contiguous run.\<close>

fun py_in :: "string \<Rightarrow> string \<Rightarrow> bool" where
  "py_in p [] = (p = [])"
| "py_in p (c # cs) = (prefix p (c # cs) \<or> py_in p cs)"

text \<open>
  \<open>s.replace(p, "")\<close>: every non-overlapping occurrence of \<open>p\<close>, found left to
  right, is removed. The source only calls it with a non-empty \<open>p\<close>; for the empty
  pattern Python returns \<open>s\<close>.
\<close>

function py_remove :: "string \<Rightarrow> string \<Rightarrow> string" where
  "py_remove p [] = []"
| "py_remove p (c # cs) =
     (if p \<noteq> [] \<and> prefix p (c # cs) then py_remove p (drop (length p) (c # cs))
      else c # py_remove p cs)"
  by pat_completeness auto
termination
  by (relation "measure (\<lambda>(p, s). length s)") (auto simp: neq_Nil_conv)

section \<open>Python numeric conversions\<close>

definition digit_val :: "char \<Rightarrow> nat option" where
  "digit_val c = map_of (zip ''0123456789'' [0, 1, 2, 3, 4, 5, 6, 7, 8, 9]) c"

text \<open>
  The \<open>digitpart\<close> of Python's numeric grammar, \<open>digit (["_"] digit)*\<close>: the digits
  read and the rest of the input. \<open>digits_rest\<close> runs after the first digit.
\<close>

fun digits_rest :: "nat list \<Rightarrow> string \<Rightarrow> nat list \<times> string" where
  "digits_rest acc [] = (acc, [])"
| "digits_rest acc [c] =
     (case digit_val c of Some d \<Rightarrow> (acc @ [d], []) | None \<Rightarrow> (acc, [c]))"
| "digits_rest acc (c # c' # cs) =
     (case digit_val c of
        Some d \<Rightarrow> digits_rest (acc @ [d]) (c' # cs)
      | None \<Rightarrow>
          (if c = CHR ''_'' then
             (case digit_val c' of
                Some d \<Rightarrow> digits_rest (acc @ [d]) cs
              | None \<Rightarrow> (acc, c # c' # cs))
           else (acc, c # c' # cs)))"

definition digitpart :: "string \<Rightarrow> (nat list \<times> string) option" where
  "digitpart s =
     (case s of
        [] \<Rightarrow> None
      | c # cs \<Rightarrow> (case digit_val c of None \<Rightarrow> None | Some d \<Rightarrow> Some (digits_rest [d] cs)))"

definition digits_value :: "nat list \<Rightarrow> nat" where
  "digits_value ds = foldl (\<lambda>a d. 10 * a + d) 0 ds"

text \<open>An optional sign: whether it is a minus, and the rest.\<close>

definition take_sign :: "string \<Rightarrow> bool \<times> string" where
  "take_sign s =
     (case s of
        [] \<Rightarrow> (False, [])
      | c # cs \<Rightarrow>
          if c = CHR ''-'' then (True, cs)
          else if c = CHR ''+'' then (False, cs)
          else (False, c # cs))"

text \<open>
  \<open>number ::= [digitpart] "." digitpart | digitpart ["."]\<close>: the integer digits, the
  fraction digits and the rest.
\<close>

definition parse_number :: "string \<Rightarrow> (nat list \<times> nat list \<times> string) option" where
  "parse_number s =
     (case digitpart s of
        Some (ip, r) \<Rightarrow>
          (case r of
             [] \<Rightarrow> Some (ip, [], [])
           | c # r' \<Rightarrow>
               if c = CHR ''.'' then
                 (case digitpart r' of
                    Some (fp, r'') \<Rightarrow> Some (ip, fp, r'')
                  | None \<Rightarrow> Some (ip, [], r'))
               else Some (ip, [], c # r'))
      | None \<Rightarrow>
          (case s of
             [] \<Rightarrow> None
           | c # r' \<Rightarrow>
               if c = CHR ''.'' then
                 (case digitpart r' of
                    Some (fp, r'') \<Rightarrow> Some ([], fp, r'')
                  | None \<Rightarrow> None)
               else None))"

text \<open>\<open>exponent ::= ("e" | "E") [sign] digitpart\<close>, up to the end of the input.\<close>

definition parse_exponent :: "string \<Rightarrow> int option" where
  "parse_exponent s =
     (case s of
        [] \<Rightarrow> Some 0
      | c # cs \<Rightarrow>
          if c = CHR ''e'' \<or> c = CHR ''E'' then
            (case take_sign cs of
               (neg, r) \<Rightarrow>
                 (case digitpart r of
                    Some (ds, []) \<Rightarrow>
                      Some (if neg then - int (digits_value ds) else int (digits_value ds))
                  | Some (ds, _ # _) \<Rightarrow> None
                  | None \<Rightarrow> None))
          else None)"

text \<open>
  \<open>float(s)\<close> for a string: surrounding whitespace is stripped, then an optional
  sign, a \<open>number\<close> and an optional exponent must make up the whole text. The
  literals \<open>inf\<close>, \<open>infinity\<close> and \<open>nan\<close>, which Python also accepts, have no real
  value and are not numbers of this model.
\<close>

definition float_of_string :: "string \<Rightarrow> real option" where
  "float_of_string s =
     (case take_sign (py_strip is_space s) of
        (neg, r) \<Rightarrow>
          (case parse_number r of
             None \<Rightarrow> None
           | Some (ip, fp, r') \<Rightarrow>
               (case parse_exponent r' of
                  None \<Rightarrow> None
                | Some e \<Rightarrow>
                    (let m = real (digits_value ip) + real (digits_value fp) / 10 ^ length fp;
                         x = (if 0 \<le> e then m * 10 ^ nat e else m / 10 ^ nat (- e))
                     in Some (if neg then - x else x)))))"

text \<open>\<open>float(v)\<close>: \<open>TypeError\<close> for \<open>None\<close>, lists and dicts, \<open>ValueError\<close> for a
  string that is not a number; \<open>True\<close> and \<open>False\<close> are 1 and 0.\<close>

fun py_float :: "json \<Rightarrow> error + real" where
  "py_float JNull = Inl TypeError"
| "py_float (JBool b) = Inr (if b then 1 else 0)"
| "py_float (JNum x) = Inr x"
| "py_float (JStr s) = (case float_of_string s of None \<Rightarrow> Inl ValueError | Some x \<Rightarrow> Inr x)"
| "py_float (JList xs) = Inl TypeError"
| "py_float (JObj kvs) = Inl TypeError"

text \<open>\<open>int(s)\<close> for a string, base 10: whitespace stripped, optional sign, digits.\<close>

definition py_int :: "string \<Rightarrow> error + int" where
  "py_int s =
     (case take_sign (py_strip is_space s) of
        (neg, r) \<Rightarrow>
          (case digitpart r of
             Some (ds, []) \<Rightarrow> Inr (if neg then - int (digits_value ds) else int (digits_value ds))
           | Some (ds, _ # _) \<Rightarrow> Inl ValueError
           | None \<Rightarrow> Inl ValueError))"

section \<open>The normalizer\<close>

subsection \<open>\<open>safe_get\<close> and \<open>mid_from_bid_ask\<close>\<close>

text \<open>\<open>safe_get(d, *keys, default=None)\<close>; every call of the source passes the
  default \<open>None\<close>.\<close>

fun safe_get :: "json \<Rightarrow> string list \<Rightarrow> json" where
  "safe_get cur [] = cur"
| "safe_get cur (k # ks) =
     (case cur of
        JObj d \<Rightarrow> (let nxt = dict_get d k in if nxt = JNull then JNull else safe_get nxt ks)
      | _ \<Rightarrow> JNull)"

text \<open>The body of the \<open>try\<close> in \<open>mid_from_bid_ask\<close>: an exception of \<open>float\<close>, or
  the value returned inside the \<open>if\<close>, or falling through (\<open>Inr None\<close>).\<close>

definition mid_try :: "json \<Rightarrow> json \<Rightarrow> error + real option" where
  "mid_try b a =
     (case py_float b of
        Inl e \<Rightarrow> Inl e
      | Inr b' \<Rightarrow>
          (case py_float a of
             Inl e \<Rightarrow> Inl e
           | Inr a' \<Rightarrow>
               if b' > 0 \<and> a' > 0 \<and> a' \<ge> b' then Inr (Some ((a' + b') / 2)) else Inr None))"

text \<open>The bare \<open>except: pass\<close> swallows every exception; then \<open>return None\<close>.\<close>

definition mid_from_bid_ask :: "json \<Rightarrow> json \<Rightarrow> real option" where
  "mid_from_bid_ask b a = (case mid_try b a of Inl e \<Rightarrow> None | Inr r \<Rightarrow> r)"

subsection \<open>\<open>guess_funding\<close>\<close>

definition funding_keys :: "string list" where
  "funding_keys = [''fundingRate'', ''funding'', ''fr'', ''funding_rate'', ''fundingRate8h'']"

text \<open>
  The inner \<open>try\<close>: \<open>float(str(v).replace("%",""))\<close>. It runs only for a value that
  \<open>float\<close> has rejected, so a string, a list or a dict. \<open>str\<close> of a list or a dict
  begins with a bracket, which \<open>float\<close> rejects with or without percent signs.
\<close>

fun percent_parse :: "json \<Rightarrow> real option" where
  "percent_parse (JStr s) = float_of_string (py_remove ''%'' s)"
| "percent_parse v = None"

fun guess_funding_loop :: "string list \<Rightarrow> (string \<times> json) list \<Rightarrow> real option" where
  "guess_funding_loop [] d = None"
| "guess_funding_loop (k # ks) d =
     (let v = dict_get d k in
      if v = JNull then guess_funding_loop ks d
      else (case py_float v of
              Inr x \<Rightarrow> Some x
            | Inl e \<Rightarrow>
                (case percent_parse v of
                   Some x \<Rightarrow> Some (x / 100)
                 | None \<Rightarrow> guess_funding_loop ks d)))"

text \<open>\<open>guess_funding(d)\<close>: \<open>d.get\<close> raises \<open>AttributeError\<close> unless \<open>d\<close> is a dict.\<close>

definition guess_funding :: "json \<Rightarrow> error + real option" where
  "guess_funding d =
     (case d of JObj kvs \<Rightarrow> Inr (guess_funding_loop funding_keys kvs) | _ \<Rightarrow> Inl AttributeError)"

subsection \<open>\<open>parse_perp_sections\<close>\<close>

text \<open>One output row: \<open>{"name": sym, "a": a, "b": b, "funding": fr}\<close>.\<close>

record row =
  row_name :: json
  row_a :: json
  row_b :: json
  row_funding :: "real option"

text \<open>
  The body of \<open>for it in lst\<close>. \<open>safe_get\<close> answers \<open>None\<close> for an element that is
  not a dict, but \<open>it.get\<close> and \<open>guess_funding(it)\<close> raise \<open>AttributeError\<close> for it.
\<close>

definition parse_row :: "json \<Rightarrow> error + row" where
  "parse_row it =
     (let sym = safe_get it [''name''];
          a = safe_get it [''a''];
          b = safe_get it [''b'']
      in case (if \<not> truthy sym \<or> a = JNull \<or> b = JNull then
                 (case it of
                    JObj d \<Rightarrow> Inr (dict_get_default d ''ask'' a, dict_get_default d ''bid'' b)
                  | _ \<Rightarrow> Inl AttributeError)
               else Inr (a, b)) of
           Inl e \<Rightarrow> Inl e
         | Inr (a', b') \<Rightarrow>
             (case guess_funding it of
                Inl e \<Rightarrow> Inl e
              | Inr fr \<Rightarrow> Inr \<lparr>row_name = sym, row_a = a', row_b = b', row_funding = fr\<rparr>))"

text \<open>The inner loop: rows are appended in list order; an exception ends the function.\<close>

fun parse_rows :: "json list \<Rightarrow> error + row list" where
  "parse_rows [] = Inr []"
| "parse_rows (it # its) =
     (case parse_row it of
        Inl e \<Rightarrow> Inl e
      | Inr r \<Rightarrow> (case parse_rows its of Inl e \<Rightarrow> Inl e | Inr rs \<Rightarrow> Inr (r # rs)))"

definition has_tag :: "string \<Rightarrow> bool" where
  "has_tag name_lc = list_ex (\<lambda>tag. py_in tag name_lc) [''perp'', ''swap'', ''futures'']"

text \<open>The exchange name guessed from a section key: \<open>binancePerp\<close> gives \<open>binance\<close>.\<close>

definition exchange_name :: "string \<Rightarrow> string" where
  "exchange_name key =
     (let name_lc = py_lower key;
          exch = py_remove ''futures'' (py_remove ''swap'' (py_remove ''perp'' name_lc));
          exch' = py_remove ''spot'' (py_strip (\<lambda>c. c = CHR ''_'' \<or> c = CHR '' '') exch)
      in if exch' \<noteq> [] then exch' else py_lower key)"

text \<open>
  The loop \<open>for key, val in data.items()\<close>, with the dict \<open>out\<close> built so far.
  \<open>out[exch] = []\<close> followed by the appends stores the section's rows under \<open>exch\<close>:
  a key already there keeps its place and loses its earlier rows.
\<close>

fun parse_sections ::
  "(string \<times> json) list \<Rightarrow> (string \<times> row list) list \<Rightarrow> error + (string \<times> row list) list" where
  "parse_sections [] out = Inr out"
| "parse_sections ((key, val) # rest) out =
     (case val of
        JObj v \<Rightarrow>
          if \<not> has_tag (py_lower key) then parse_sections rest out
          else (case dict_get v ''list'' of
                  JList lst \<Rightarrow>
                    (case parse_rows lst of
                       Inl e \<Rightarrow> Inl e
                     | Inr rows \<Rightarrow>
                         parse_sections rest (AList.update (exchange_name key) rows out))
                | _ \<Rightarrow> parse_sections rest out)
      | _ \<Rightarrow> parse_sections rest out)"

text \<open>\<open>j.get("data") or j\<close>: \<open>j.get\<close> raises \<open>AttributeError\<close> unless \<open>j\<close> is a dict.\<close>

definition parse_perp_sections :: "json \<Rightarrow> error + (string \<times> row list) list" where
  "parse_perp_sections j =
     (case j of
        JObj d \<Rightarrow>
          (let dv = dict_get d ''data'';
               data = (if truthy dv then dv else j)
           in case data of JObj dd \<Rightarrow> parse_sections dd [] | _ \<Rightarrow> Inr [])
      | _ \<Rightarrow> Inl AttributeError)"

section \<open>The time-series store\<close>

text \<open>A series is a \<open>deque\<close> of \<open>(ts, value)\<close> points, oldest first.\<close>

type_synonym series = "(int \<times> real) list"

text \<open>\<open>ring[symbol][exchange]\<close>: nested dicts in insertion order.\<close>

type_synonym ring = "(json \<times> (string \<times> series) list) list"

record store =
  ring_prices :: ring
  ring_funding :: ring

definition PRICE_MAXLEN :: nat where
  "PRICE_MAXLEN = 6000"

definition FUNDING_MAXLEN :: nat where
  "FUNDING_MAXLEN = 14400"

definition empty_store :: store where
  "empty_store = \<lparr>ring_prices = [], ring_funding = []\<rparr>"

text \<open>\<open>deque(maxlen=n).append(x)\<close>: the new point goes to the right end, and a deque
  longer than \<open>maxlen\<close> drops its leftmost point; with \<open>maxlen = 0\<close> nothing is kept.\<close>

definition deque_append :: "nat \<Rightarrow> 'a list \<Rightarrow> 'a \<Rightarrow> 'a list" where
  "deque_append maxlen q x =
     (if maxlen = 0 then q
      else (let q' = q @ [x] in if length q' > maxlen then tl q' else q'))"

text \<open>
  A dict key: lists and dicts are unhashable (\<open>TypeError\<close>), and \<open>True\<close> and \<open>False\<close>
  are the keys 1 and 0.
\<close>

fun dict_key :: "json \<Rightarrow> error + json" where
  "dict_key JNull = Inr JNull"
| "dict_key (JBool b) = Inr (JNum (if b then 1 else 0))"
| "dict_key (JNum x) = Inr (JNum x)"
| "dict_key (JStr s) = Inr (JStr s)"
| "dict_key (JList xs) = Inl TypeError"
| "dict_key (JObj kvs) = Inl TypeError"


text \<open>\<open>ring[name][exch].append(p)\<close>: a missing symbol or exchange is created empty, at
  the end of its dict.\<close>

definition ring_append :: "nat \<Rightarrow> ring \<Rightarrow> json \<Rightarrow> string \<Rightarrow> int \<times> real \<Rightarrow> ring" where
  "ring_append maxlen r name exch p =
     (let m = (case map_of r name of None \<Rightarrow> [] | Some m' \<Rightarrow> m');
          q = (case map_of m exch of None \<Rightarrow> [] | Some q' \<Rightarrow> q')
      in AList.update name (AList.update exch (deque_append maxlen q p) m) r)"

section \<open>The fetcher\<close>

text \<open>
  The body of \<open>for row in rows\<close> in \<open>fetch_loop\<close>. The result is the store after the
  row and the exception raised, if any: an unhashable \<open>name\<close> raises \<open>TypeError\<close>
  at the first \<open>ring[name]\<close>.
\<close>

definition write_row :: "string \<Rightarrow> int \<Rightarrow> store \<Rightarrow> row \<Rightarrow> store \<times> error option" where
  "write_row exch ts st r =
     (let name = row_name r;
          mid = mid_from_bid_ask (row_b r) (row_a r);
          step1 =
            (case mid of
               None \<Rightarrow> (st, None)
             | Some m \<Rightarrow>
                 (case dict_key name of
                    Inl e \<Rightarrow> (st, Some e)
                  | Inr k \<Rightarrow>
                      (st\<lparr>ring_prices := ring_append PRICE_MAXLEN (ring_prices st) k exch (ts, m)\<rparr>,
                       None)))
      in case step1 of
           (st1, Some e) \<Rightarrow> (st1, Some e)
         | (st1, None) \<Rightarrow>
             (case row_funding r of
                None \<Rightarrow> (st1, None)
              | Some f \<Rightarrow>
                  (case dict_key name of
                     Inl e \<Rightarrow> (st1, Some e)
                   | Inr k \<Rightarrow>
                       (st1\<lparr>ring_funding :=
                              ring_append FUNDING_MAXLEN (ring_funding st1) k exch (ts, f)\<rparr>,
                        None))))"

fun write_rows :: "string \<Rightarrow> int \<Rightarrow> store \<Rightarrow> row list \<Rightarrow> store \<times> error option" where
  "write_rows exch ts st [] = (st, None)"
| "write_rows exch ts st (r # rs) =
     (case write_row exch ts st r of
        (st', Some e) \<Rightarrow> (st', Some e)
      | (st', None) \<Rightarrow> write_rows exch ts st' rs)"

fun write_sections :: "int \<Rightarrow> store \<Rightarrow> (string \<times> row list) list \<Rightarrow> store \<times> error option" where
  "write_sections ts st [] = (st, None)"
| "write_sections ts st ((exch, rows) # rest) =
     (case write_rows exch ts st rows of
        (st', Some e) \<Rightarrow> (st', Some e)
      | (st', None) \<Rightarrow> write_sections ts st' rest)"

text \<open>
  One turn of \<open>while True\<close> in \<open>fetch_loop\<close>, at clock reading \<open>ts\<close>. The upstream
  answer is \<open>None\<close> when the request or its decoding failed. The \<open>except\<close> of
  the loop swallows every exception; what was appended before it stays.
\<close>

definition fetch_cycle :: "store \<Rightarrow> json option \<Rightarrow> int \<Rightarrow> store" where
  "fetch_cycle st upstream ts =
     (case upstream of
        None \<Rightarrow> st
      | Some j \<Rightarrow>
          (case parse_perp_sections j of
             Inl e \<Rightarrow> st
           | Inr sections \<Rightarrow> fst (write_sections ts st sections)))"

text \<open>The stores the process can be in: empty at start, then one cycle after another.\<close>

inductive reachable :: "store \<Rightarrow> bool" where
  reachable_init: "reachable empty_store"
| reachable_step: "reachable st \<Longrightarrow> reachable (fetch_cycle st upstream ts)"

section \<open>Pair selection\<close>

text \<open>
  \<open>xs.sort(key=f, reverse=True)\<close>. Python's sort is stable, also when reversed:
  the list is reversed, sorted in ascending order, and reversed again.
\<close>

definition py_sort_desc :: "('a \<Rightarrow> 'k::linorder) \<Rightarrow> 'a list \<Rightarrow> 'a list" where
  "py_sort_desc f xs = rev (sort_key f (rev xs))"

text \<open>The sort key of \<open>pick_pair_exchanges\<close>:
  \<open>exch_dict[k][-1][0] if exch_dict[k] else 0\<close>.\<close>

definition last_ts :: "(string \<times> series) list \<Rightarrow> string \<Rightarrow> int" where
  "last_ts exch_dict k =
     (case map_of exch_dict k of
        None \<Rightarrow> 0
      | Some q \<Rightarrow> if q = [] then 0 else fst (last q))"

definition pick_pair_exchanges :: "(string \<times> series) list \<Rightarrow> string option \<times> string option" where
  "pick_pair_exchanges exch_dict =
     (let keys = map fst exch_dict in
      if ''binance'' \<in> set keys \<and> ''okx'' \<in> set keys then (Some ''binance'', Some ''okx'')
      else if length keys \<ge> 2 then
        (let ks = py_sort_desc (last_ts exch_dict) keys in (Some (ks ! 0), Some (ks ! 1)))
      else (None, None))"

section \<open>Rolling statistics\<close>

text \<open>The slice \<open>list(q)[-window:]\<close>: a start below zero counts from the end and is
  clipped at the front; a start of zero or more is clipped at the length.\<close>

definition recent :: "'a list \<Rightarrow> int \<Rightarrow> 'a list" where
  "recent xs window =
     (let n = int (length xs);
          start = - window;
          start' = (if start < 0 then max (start + n) 0 else min start n)
      in drop (nat start') xs)"

text \<open>
  The loop \<open>for i in range(n)\<close> that fills \<open>spreads\<close>. \<open>series[-1 - i]\<close> is the element
  at \<open>len - 1 - i\<close>, in range because \<open>i < n \<le> len\<close>.
\<close>

definition spread_samples :: "series \<Rightarrow> series \<Rightarrow> real list" where
  "spread_samples seriesA seriesB =
     (let n = min (length seriesA) (length seriesB) in
      concat (map (\<lambda>i.
        let mA = snd (seriesA ! (length seriesA - 1 - i));
            mB = snd (seriesB ! (length seriesB - 1 - i));
            avgm = (mA + mB) / 2
        in if avgm > 0 then [(mB - mA) / avgm * 100] else []) [0..<n]))"

text \<open>\<open>(avg_spread, std_spread, samples)\<close> from \<open>spreads\<close>.\<close>

definition rolling_stats :: "real list \<Rightarrow> real option \<times> real option \<times> nat" where
  "rolling_stats spreads =
     (if length spreads = 0 then (None, None, 0)
      else if length spreads = 1 then (Some (spreads ! 0), Some 0, 1)
      else
        (let avg_spread = sum_list spreads / real (length spreads);
             mu = avg_spread;
             var = sum_list (map (\<lambda>x. (x - mu) ^ 2) spreads) / real (length spreads - 1)
         in (Some avg_spread, Some (sqrt var), length spreads)))"

definition zscore_of :: "real \<Rightarrow> real option \<Rightarrow> real option \<Rightarrow> real option" where
  "zscore_of spread_pct avg_spread std_spread =
     (case std_spread of
        None \<Rightarrow> None
      | Some sd \<Rightarrow>
          if sd > 1 / 10 ^ 9 then
            (case avg_spread of None \<Rightarrow> None | Some mu \<Rightarrow> Some ((spread_pct - mu) / sd))
          else None)"

text \<open>
  Lines 224 to 248 of \<open>api_data\<close>: from the window, the two stored series and the
  current spread to \<open>(avg_spread, std_spread, samples, zscore)\<close>.
\<close>

definition stats_engine ::
  "int \<Rightarrow> series \<Rightarrow> series \<Rightarrow> real \<Rightarrow> real option \<times> real option \<times> nat \<times> real option" where
  "stats_engine window qA qB spread_pct =
     (let seriesA = recent qA window;
          seriesB = recent qB window;
          spreads = spread_samples seriesA seriesB
      in case rolling_stats spreads of
           (avg_spread, std_spread, samples) \<Rightarrow>
             (avg_spread, std_spread, samples, zscore_of spread_pct avg_spread std_spread))"

section \<open>The query\<close>

text \<open>\<open>round(x, n)\<close> on the reals: to the nearest multiple of \<open>10 ^ - n\<close>, a tie to the
  even one.\<close>

definition round_half_even :: "real \<Rightarrow> int" where
  "round_half_even x =
     (let f = \<lfloor>x\<rfloor>; d = x - of_int f in
      if d < 1 / 2 then f else if d > 1 / 2 then f + 1 else if even f then f else f + 1)"

definition py_round :: "real \<Rightarrow> nat \<Rightarrow> real" where
  "py_round x n = of_int (round_half_even (x * 10 ^ n)) / 10 ^ n"

text \<open>One record of \<open>items\<close>.\<close>

record item =
  item_symbol :: json
  item_exA :: string
  item_exB :: string
  item_midA :: real
  item_midB :: real
  item_spread_pct :: real
  item_avg_spread_pct :: "real option"
  item_zscore :: "real option"
  item_fundingA :: "real option"
  item_fundingB :: "real option"
  item_funding_avg :: "real option"
  item_window_sec :: int
  item_samples :: nat

text \<open>\<open>m[ex]\<close> on the inner \<open>defaultdict\<close>, and \<open>q[-1][1] if q else None\<close>.\<close>

definition series_of :: "(string \<times> series) list \<Rightarrow> string \<Rightarrow> series" where
  "series_of m ex = (case map_of m ex of None \<Rightarrow> [] | Some q \<Rightarrow> q)"

definition latest :: "series \<Rightarrow> real option" where
  "latest q = (if q = [] then None else Some (snd (last q)))"

text \<open>\<open>fAvg\<close>: the mean of the funding values that are there.\<close>

definition funding_avg :: "real option \<Rightarrow> real option \<Rightarrow> real option" where
  "funding_avg fA fB =
     (let vals = List.map_filter id [fA, fB] in
      if vals = [] then None else Some (sum_list vals / real (length vals)))"

text \<open>
  The body of \<open>for sym, exch_map in list(ring_prices.items())\<close>: \<open>None\<close> where the source
  says \<open>continue\<close>, the appended record otherwise.
\<close>

definition build_item :: "int \<Rightarrow> ring \<Rightarrow> json \<times> (string \<times> series) list \<Rightarrow> item option" where
  "build_item window fring entry =
     (case entry of (symbol, exch_map) \<Rightarrow>
      if length exch_map < 2 then None
      else
        (case pick_pair_exchanges exch_map of
           (Some exA, Some exB) \<Rightarrow>
             if exA = [] \<or> exB = [] then None
             else
               (case (latest (series_of exch_map exA), latest (series_of exch_map exB)) of
                  (Some midA, Some midB) \<Rightarrow>
                    if midA = 0 \<or> midB = 0 then None
                    else
                      (let avg_mid = (midA + midB) / 2 in
                       if avg_mid \<le> 0 then None
                       else
                         (let spread_pct = (midB - midA) / avg_mid * 100;
                              f_map = (case map_of fring symbol of None \<Rightarrow> [] | Some m \<Rightarrow> m);
                              fA = latest (series_of f_map exA);
                              fB = latest (series_of f_map exB)
                          in case stats_engine window (series_of exch_map exA)
                                    (series_of exch_map exB) spread_pct of
                               (avg_spread, std_spread, samples, zscore) \<Rightarrow>
                                 Some \<lparr>item_symbol = symbol,
                                       item_exA = exA, item_exB = exB,
                                       item_midA = py_round midA 10,
                                       item_midB = py_round midB 10,
                                       item_spread_pct = py_round spread_pct 6,
                                       item_avg_spread_pct =
                                         map_option (\<lambda>x. py_round x 6) avg_spread,
                                       item_zscore = map_option (\<lambda>x. py_round x 3) zscore,
                                       item_fundingA = fA, item_fundingB = fB,
                                       item_funding_avg = funding_avg fA fB,
                                       item_window_sec = window,
                                       item_samples = samples\<rparr>))
                | _ \<Rightarrow> None)
         | _ \<Rightarrow> None))"

definition WINDOW_SEC_DEFAULT :: int where
  "WINDOW_SEC_DEFAULT = 300"

text \<open>
  The body of the \<open>try\<close> in \<open>api_data\<close>. The query string holds \<open>window\<close> as text, or
  not at all; \<open>int\<close> of a text that is not a number raises \<open>ValueError\<close>.
\<close>

definition api_body :: "string option \<Rightarrow> store \<Rightarrow> error + item list" where
  "api_body window_arg st =
     (case (case window_arg of None \<Rightarrow> Inr WINDOW_SEC_DEFAULT | Some s \<Rightarrow> py_int s) of
        Inl e \<Rightarrow> Inl e
      | Inr window \<Rightarrow>
          (let items = List.map_filter (build_item window (ring_funding st)) (ring_prices st)
           in Inr (py_sort_desc (\<lambda>x. \<bar>item_spread_pct x\<bar>) items)))"

text \<open>The two payloads, \<open>{"ok": True, "items": items}\<close> and
  \<open>{"ok": False, "error": str(e)}\<close>, each with its HTTP status.\<close>

datatype payload = Success "item list" | Failure error

definition api_data :: "string option \<Rightarrow> store \<Rightarrow> payload \<times> nat" where
  "api_data window_arg st =
     (case api_body window_arg st of
        Inr items \<Rightarrow> (Success items, 200)
      | Inl e \<Rightarrow> (Failure e, 500))"

section \<open>Notions the statements use\<close>

subsection \<open>Funding extraction as the specification words it\<close>

text \<open>
  The specification's fallback for a funding candidate strips a trailing percent sign.
  \<open>spec_guess_funding\<close> is \<open>guess_funding\<close> with that fallback in place of the source's
  \<open>replace("%", "")\<close>; it is compared with the source below.
\<close>

definition strip_trailing_percent :: "string \<Rightarrow> string" where
  "strip_trailing_percent s = (if s \<noteq> [] \<and> last s = CHR ''%'' then butlast s else s)"

fun spec_percent_parse :: "json \<Rightarrow> real option" where
  "spec_percent_parse (JStr s) = float_of_string (strip_trailing_percent s)"
| "spec_percent_parse v = None"

fun spec_guess_funding_loop :: "string list \<Rightarrow> (string \<times> json) list \<Rightarrow> real option" where
  "spec_guess_funding_loop [] d = None"
| "spec_guess_funding_loop (k # ks) d =
     (let v = dict_get d k in
      if v = JNull then spec_guess_funding_loop ks d
      else (case py_float v of
              Inr x \<Rightarrow> Some x
            | Inl e \<Rightarrow>
                (case spec_percent_parse v of
                   Some x \<Rightarrow> Some (x / 100)
                 | None \<Rightarrow> spec_guess_funding_loop ks d)))"

definition spec_guess_funding :: "json \<Rightarrow> error + real option" where
  "spec_guess_funding d =
     (case d of
        JObj kvs \<Rightarrow> Inr (spec_guess_funding_loop funding_keys kvs)
      | _ \<Rightarrow> Inl AttributeError)"

text \<open>
  The number one candidate value yields: the direct parse, or else, for a text, the parse
  of the text without its percent signs, divided by 100.
\<close>

definition candidate_number :: "json \<Rightarrow> real option" where
  "candidate_number v =
     (case py_float v of
        Inr x \<Rightarrow> Some x
      | Inl e \<Rightarrow>
          (case v of
             JStr s \<Rightarrow>
               map_option (\<lambda>x. x / 100) (float_of_string (filter (\<lambda>c. c \<noteq> CHR ''%'') s))
           | _ \<Rightarrow> None))"

subsection \<open>Spread samples and sample statistics\<close>

text \<open>The historical spread of one pair of points, absent when the average mid is not
  positive.\<close>

definition spread_sample :: "int \<times> real \<Rightarrow> int \<times> real \<Rightarrow> real option" where
  "spread_sample pA pB =
     (let avg = (snd pA + snd pB) / 2 in
      if avg > 0 then Some ((snd pB - snd pA) / avg * 100) else None)"

definition mean :: "real list \<Rightarrow> real" where
  "mean xs = sum_list xs / real (length xs)"

text \<open>The sample standard deviation with Bessel's correction.\<close>

definition bessel_std :: "real list \<Rightarrow> real" where
  "bessel_std xs = sqrt (sum_list (map (\<lambda>x. (x - mean xs) ^ 2) xs) / real (length xs - 1))"

subsection \<open>Capacity of the store\<close>

definition ring_bounded :: "nat \<Rightarrow> ring \<Rightarrow> bool" where
  "ring_bounded C r = list_all (\<lambda>entry. list_all (\<lambda>e. length (snd e) \<le> C) (snd entry)) r"

definition store_bounded :: "store \<Rightarrow> bool" where
  "store_bounded st =
     (ring_bounded PRICE_MAXLEN (ring_prices st) \<and> ring_bounded FUNDING_MAXLEN (ring_funding st))"

subsection \<open>Example inputs\<close>

text \<open>A section \<open>binancePerp\<close> whose list holds one empty object.\<close>

definition empty_row_doc :: json where
  "empty_row_doc = JObj [(''binancePerp'', JObj [(''list'', JList [JObj []])])]"


text \<open>Two instruments on two exchanges, with current spreads of 0.5 and 2 percent.\<close>

definition two_symbol_store :: store where
  "two_symbol_store =
     \<lparr>ring_prices =
        [(JStr ''AAA'', [(''binance'', [(1, 399)]), (''okx'', [(1, 401)])]),
         (JStr ''BBB'', [(''binance'', [(1, 99)]), (''okx'', [(1, 101)])])],
      ring_funding = []\<rparr>"

text \<open>One instrument with two stored ticks on each exchange.\<close>

definition two_tick_store :: store where
  "two_tick_store =
     \<lparr>ring_prices = [(JStr ''BBB'', [(''bybit'', [(1, 99), (2, 99)]), (''okx'', [(1, 101), (2, 101)])])],
      ring_funding = []\<rparr>"

text \<open>A document with two sections that quote the same instrument.\<close>

definition two_exchange_doc :: json where
  "two_exchange_doc =
     JObj [(''data'',
            JObj [(''bybit_swap'',
                   JObj [(''list'', JList [JObj [(''name'', JStr ''BBB''), (''a'', JNum 99),
                                                 (''b'', JNum 99)]])]),
                  (''OKX_PERP'',
                   JObj [(''list'', JList [JObj [(''name'', JStr ''BBB''), (''a'', JNum 101),
                                                 (''b'', JNum 101)]])])])]"

section \<open>Properties of the normalizer\<close>

lemmas parser_defs =
  float_of_string_def py_strip_def is_space_def take_sign_def parse_number_def
  digitpart_def digit_val_def parse_exponent_def digits_value_def

lemma mid_Some_iff:
  "(mid_from_bid_ask b a = Some m) \<longleftrightarrow>
     (\<exists>x y. py_float b = Inr x \<and> py_float a = Inr y \<and> 0 < x \<and> 0 < y \<and> x \<le> y \<and> m = (y + x) / 2)"
  by (auto simp: mid_from_bid_ask_def mid_try_def split: sum.splits)

lemma mid_None_iff:
  "(mid_from_bid_ask b a = None) \<longleftrightarrow>
     \<not> (\<exists>x y. py_float b = Inr x \<and> py_float a = Inr y \<and> 0 < x \<and> 0 < y \<and> x \<le> y)"
proof (cases "py_float b")
  case (Inl e)
  then show ?thesis by (simp add: mid_from_bid_ask_def mid_try_def)
next
  case b: (Inr x)
  show ?thesis
  proof (cases "py_float a")
    case (Inl e)
    with b show ?thesis by (simp add: mid_from_bid_ask_def mid_try_def)
  next
    case (Inr y)
    with b show ?thesis by (simp add: mid_from_bid_ask_def mid_try_def)
  qed
qed

text \<open>The cases the spec lists as tests: a good quote, a crossed quote, a zero bid, text
  that is not a number, and missing values.\<close>

lemma mid_examples:
  "mid_from_bid_ask (JStr ''100.0'') (JStr ''100.2'') = Some (1001 / 10)"
  "mid_from_bid_ask (JNum 3) (JNum 2) = None"
  "mid_from_bid_ask (JNum 0) (JNum 2) = None"
  "mid_from_bid_ask (JStr ''abc'') (JNum 2) = None"
  "mid_from_bid_ask JNull JNull = None"
  by (simp_all add: mid_from_bid_ask_def mid_try_def parser_defs)

text \<open>
  Claim C5. \<open>mid_from_bid_ask(b, a)\<close> returns \<open>(a + b) / 2\<close> exactly when \<open>float\<close>
  accepts both arguments and the two numbers satisfy \<open>b > 0\<close>, \<open>a > 0\<close> and \<open>a \<ge> b\<close>;
  in every other case (a crossed quote, a value that is not positive, an argument \<open>float\<close>
  rejects) it returns \<open>None\<close>. The function is total: an exception of \<open>float\<close> is
  an \<open>Inl\<close> of \<open>mid_try\<close>, which \<open>mid_from_bid_ask\<close> turns into \<open>None\<close>.
\<close>

theorem mid_from_bid_ask_iff:
  "((mid_from_bid_ask b a = Some m) \<longleftrightarrow>
     (\<exists>x y. py_float b = Inr x \<and> py_float a = Inr y \<and> 0 < x \<and> 0 < y \<and> x \<le> y \<and> m = (y + x) / 2))
   \<and> ((mid_from_bid_ask b a = None) \<longleftrightarrow>
     \<not> (\<exists>x y. py_float b = Inr x \<and> py_float a = Inr y \<and> 0 < x \<and> 0 < y \<and> x \<le> y))"
  using mid_Some_iff [of b a m] mid_None_iff [of b a] by blast

text \<open>
  Claim C1. The normalizer is claimed never to raise. It does: \<open>safe_get\<close> tolerates a
  list element that is not a dict, but the \<open>it.get("ask", a)\<close> that follows does not, so
  a section whose list holds the number 1 ends \<open>parse_perp_sections\<close> with
  \<open>AttributeError\<close>.
\<close>

theorem parse_perp_sections_raises:
  "parse_perp_sections (JObj [(''binancePerp'', JObj [(''list'', JList [JNum 1])])])
     = Inl AttributeError"
  by (simp add: parse_perp_sections_def dict_get_def has_tag_def py_lower_def lower_char_def
      parse_row_def)

text \<open>The inner loop emits one row per list element, in list order.\<close>

lemma parse_rows_length: "parse_rows lst = Inr rows \<Longrightarrow> length rows = length lst"
  by (induction lst arbitrary: rows) (auto split: sum.splits)

lemma parse_rows_nth:
  "parse_rows lst = Inr rows \<Longrightarrow> i < length lst \<Longrightarrow> parse_row (lst ! i) = Inr (rows ! i)"
proof (induction lst arbitrary: rows i)
  case Nil
  then show ?case by simp
next
  case (Cons it its)
  then show ?case by (cases i) (auto split: sum.splits)
qed

lemma set_alist_update: "set (AList.update k v al) \<subseteq> insert (k, v) (set al)"
  by (induction al) auto

lemma write_row_unusable:
  "mid_from_bid_ask (row_b r) (row_a r) = None \<Longrightarrow> row_funding r = None \<Longrightarrow>
   write_row exch ts st r = (st, None)"
  by (simp add: write_row_def)

lemma py_remove_char: "py_remove [c] s = filter (\<lambda>x. x \<noteq> c) s"
  by (induction s) auto

lemma guess_funding_loop_find:
  "guess_funding_loop ks d =
     (case find (\<lambda>k. candidate_number (dict_get d k) \<noteq> None) ks of
        None \<Rightarrow> None
      | Some k \<Rightarrow> candidate_number (dict_get d k))"
proof (induction ks)
  case Nil
  then show ?case by simp
next
  case (Cons k ks)
  show ?case
  proof (cases "dict_get d k")
    case (JStr s)
    then show ?thesis using Cons
      by (auto simp: candidate_number_def py_remove_char Let_def split: sum.splits option.splits)
  qed (use Cons in \<open>auto simp: candidate_number_def Let_def split: sum.splits option.splits\<close>)
qed

lemma parse_sections_step:
  "parse_sections ((key, val) # rest) out = parse_sections rest out \<or>
   (\<exists>v lst. val = JObj v \<and> dict_get v ''list'' = JList lst \<and>
      ((\<exists>e. parse_rows lst = Inl e \<and> parse_sections ((key, val) # rest) out = Inl e) \<or>
       (\<exists>rs. parse_rows lst = Inr rs \<and>
          parse_sections ((key, val) # rest) out =
            parse_sections rest (AList.update (exchange_name key) rs out))))"
  by (auto split: json.splits sum.splits)

text \<open>Every entry of the result is there from the start or is the whole row list of a
  section.\<close>

lemma parse_sections_origin:
  "parse_sections secs out = Inr out' \<Longrightarrow> (exch, rows) \<in> set out' \<Longrightarrow>
   (exch, rows) \<in> set out \<or>
   (\<exists>key v lst. (key, JObj v) \<in> set secs \<and> dict_get v ''list'' = JList lst \<and>
      exch = exchange_name key \<and> parse_rows lst = Inr rows)"
proof (induction secs arbitrary: out)
  case Nil
  then show ?case by simp
next
  case (Cons sec rest)
  obtain key val where sec: "sec = (key, val)" by (cases sec)
  let ?from = "\<lambda>secs. \<exists>key v lst. (key, JObj v) \<in> set secs \<and> dict_get v ''list'' = JList lst \<and>
      exch = exchange_name key \<and> parse_rows lst = Inr rows"
  have mono: "?from rest \<Longrightarrow> ?from (sec # rest)" by auto
  from parse_sections_step [of key val rest out]
  consider (skip) "parse_sections ((key, val) # rest) out = parse_sections rest out"
    | (fail) e where "parse_sections ((key, val) # rest) out = Inl e"
    | (rows) v lst rs where "val = JObj v" "dict_get v ''list'' = JList lst"
        "parse_rows lst = Inr rs"
        "parse_sections ((key, val) # rest) out =
           parse_sections rest (AList.update (exchange_name key) rs out)"
    by blast
  then show ?case
  proof cases
    case skip
    with Cons.prems sec have "parse_sections rest out = Inr out'" by simp
    from Cons.IH [OF this Cons.prems(2)] mono show ?thesis by blast
  next
    case fail
    with Cons.prems sec show ?thesis by simp
  next
    case rows
    with Cons.prems sec
    have "parse_sections rest (AList.update (exchange_name key) rs out) = Inr out'" by simp
    from Cons.IH [OF this Cons.prems(2)]
    consider "(exch, rows) \<in> set (AList.update (exchange_name key) rs out)" | "?from rest"
      by blast
    then show ?thesis
    proof cases
      case 1
      then have "(exch, rows) \<in> set out \<or> (exch = exchange_name key \<and> rows = rs)"
        using set_alist_update [of "exchange_name key" rs out] by auto
      then show ?thesis
      proof
        assume "(exch, rows) \<in> set out"
        then show ?thesis by simp
      next
        assume "exch = exchange_name key \<and> rows = rs"
        with rows sec have "?from (sec # rest)" by auto
        then show ?thesis by blast
      qed
    next
      case 2
      with mono show ?thesis by blast
    qed
  qed
qed

lemma parse_perp_sections_origin:
  assumes "parse_perp_sections j = Inr out" "(exch, rows) \<in> set out"
  shows "\<exists>dd key v lst.
           (j = JObj dd \<or> (\<exists>d. j = JObj d \<and> dict_get d ''data'' = JObj dd)) \<and>
           (key, JObj v) \<in> set dd \<and> dict_get v ''list'' = JList lst \<and>
           exch = exchange_name key \<and> parse_rows lst = Inr rows"
proof -
  from assms(1) obtain d where j: "j = JObj d"
    by (cases j) (auto simp: parse_perp_sections_def)
  define data where "data = (if truthy (dict_get d ''data'') then dict_get d ''data'' else j)"
  from assms j obtain dd where dd: "data = JObj dd" "parse_sections dd [] = Inr out"
    by (cases data) (auto simp: parse_perp_sections_def data_def Let_def split: if_splits)
  from dd(1) j have src: "j = JObj dd \<or> (\<exists>d. j = JObj d \<and> dict_get d ''data'' = JObj dd)"
    by (auto simp: data_def split: if_splits)
  from parse_sections_origin [OF dd(2) assms(2)]
  obtain key v lst where "(key, JObj v) \<in> set dd" "dict_get v ''list'' = JList lst"
      "exch = exchange_name key" "parse_rows lst = Inr rows"
    by auto
  with src show ?thesis by blast
qed

text \<open>
  Claim C2, as stated, fails. The normalizer is claimed to drop every row that lacks both
  a usable price and a usable funding value. It has no filter: a section whose list holds
  one empty object yields one row with no name, no bid, no ask and no funding.
\<close>

theorem unusable_row_is_kept:
  "parse_perp_sections empty_row_doc
     = Inr [(''binance'', [\<lparr>row_name = JNull, row_a = JNull, row_b = JNull, row_funding = None\<rparr>])]
   \<and> mid_from_bid_ask JNull JNull = None"
  by (simp add: empty_row_doc_def parse_perp_sections_def dict_get_def dict_get_default_def
      has_tag_def py_lower_def lower_char_def parse_row_def guess_funding_def funding_keys_def
      exchange_name_def py_strip_def mid_from_bid_ask_def mid_try_def)

text \<open>
  Claim C2, amended. Every row list \<open>parse_perp_sections\<close> returns is the whole list of a
  section of the container (the \<open>data\<close> object, or the document): one row per list
  element, in list order, whether or not the element has a usable price or funding value.
  A row that lacks both is dropped one step later: the store write of \<open>fetch_loop\<close>
  appends nothing for it and leaves the store as it was.
\<close>

theorem rows_kept_until_store_write:
  "(parse_perp_sections j = Inr out \<and> (exch, rows) \<in> set out \<longrightarrow>
      (\<exists>dd key v lst.
         (j = JObj dd \<or> (\<exists>d. j = JObj d \<and> dict_get d ''data'' = JObj dd)) \<and>
         (key, JObj v) \<in> set dd \<and> dict_get v ''list'' = JList lst \<and>
         exch = exchange_name key \<and> length rows = length lst \<and>
         (\<forall>i<length lst. parse_row (lst ! i) = Inr (rows ! i))))
   \<and> (mid_from_bid_ask (row_b r) (row_a r) = None \<and> row_funding r = None \<longrightarrow>
        write_row exch' ts st r = (st, None))"
proof (intro conjI impI)
  assume a: "parse_perp_sections j = Inr out \<and> (exch, rows) \<in> set out"
  then obtain dd key v lst where
    o: "j = JObj dd \<or> (\<exists>d. j = JObj d \<and> dict_get d ''data'' = JObj dd)"
       "(key, JObj v) \<in> set dd" "dict_get v ''list'' = JList lst"
       "exch = exchange_name key" "parse_rows lst = Inr rows"
    using parse_perp_sections_origin [of j out exch rows] by blast
  from o(5) have "length rows = length lst"
    and "\<forall>i<length lst. parse_row (lst ! i) = Inr (rows ! i)"
    by (simp_all add: parse_rows_length parse_rows_nth)
  with o show "\<exists>dd key v lst.
         (j = JObj dd \<or> (\<exists>d. j = JObj d \<and> dict_get d ''data'' = JObj dd)) \<and>
         (key, JObj v) \<in> set dd \<and> dict_get v ''list'' = JList lst \<and>
         exch = exchange_name key \<and> length rows = length lst \<and>
         (\<forall>i<length lst. parse_row (lst ! i) = Inr (rows ! i))"
    by blast
next
  assume "mid_from_bid_ask (row_b r) (row_a r) = None \<and> row_funding r = None"
  then show "write_row exch' ts st r = (st, None)" by (simp add: write_row_unusable)
qed

text \<open>The amended claim at the document with one empty row.\<close>

theorem rows_kept_until_store_write_witness:
  "parse_perp_sections empty_row_doc
     = Inr [(''binance'', [\<lparr>row_name = JNull, row_a = JNull, row_b = JNull, row_funding = None\<rparr>])]
   \<and> length [\<lparr>row_name = JNull, row_a = JNull, row_b = JNull, row_funding = None\<rparr>] = length [JObj []]
   \<and> write_row ''binance'' 5 empty_store
        \<lparr>row_name = JNull, row_a = JNull, row_b = JNull, row_funding = None\<rparr> = (empty_store, None)"
proof -
  let ?r = "\<lparr>row_name = JNull, row_a = JNull, row_b = JNull, row_funding = None\<rparr>"
  have p: "parse_perp_sections empty_row_doc = Inr [(''binance'', [?r])]"
    by (simp add: empty_row_doc_def parse_perp_sections_def dict_get_def dict_get_default_def
      has_tag_def py_lower_def lower_char_def parse_row_def guess_funding_def funding_keys_def
      exchange_name_def py_strip_def)
  have m: "mid_from_bid_ask (row_b ?r) (row_a ?r) = None \<and> row_funding ?r = None"
    by (simp add: mid_from_bid_ask_def mid_try_def)
  from rows_kept_until_store_write [of empty_row_doc "[(''binance'', [?r])]" "''binance''" "[?r]" ?r "''binance''" 5 empty_store] p m
  show ?thesis by simp
qed

text \<open>
  Claim C6, as stated, fails. The fallback is claimed to strip a trailing percent sign.
  The source removes every percent sign, wherever it stands: for the value \<open>1%2\<close> the
  source answers 0.12, and the extraction the claim describes finds no number.
\<close>

theorem percent_inside_counterexample:
  "guess_funding (JObj [(''funding'', JStr ''1%2'')]) = Inr (Some (12 / 100))
   \<and> spec_guess_funding (JObj [(''funding'', JStr ''1%2'')]) = Inr None"
  by (simp add: guess_funding_def spec_guess_funding_def funding_keys_def dict_get_def
      strip_trailing_percent_def parser_defs)

text \<open>
  Claim C6, amended. For every row object, funding extraction tries the candidate names
  \<open>fundingRate\<close>, \<open>funding\<close>, \<open>fr\<close>, \<open>funding_rate\<close>, \<open>fundingRate8h\<close> in this order. A
  candidate yields a number when \<open>float\<close> accepts its value, or else when its value is a
  text that \<open>float\<close> accepts once all its percent signs are removed, and then the number
  is that parse divided by 100. The first candidate that yields a number gives the result;
  with no such candidate funding is absent. A row whose only candidate is \<open>funding\<close> with
  the value \<open>0.01%\<close> has funding 0.0001.
\<close>

theorem guess_funding_first_candidate:
  "guess_funding (JObj d) =
     Inr (case find (\<lambda>k. candidate_number (dict_get d k) \<noteq> None)
                 [''fundingRate'', ''funding'', ''fr'', ''funding_rate'', ''fundingRate8h''] of
            None \<Rightarrow> None
          | Some k \<Rightarrow> candidate_number (dict_get d k))
   \<and> guess_funding (JObj [(''funding'', JStr ''0.01%'')]) = Inr (Some (1 / 10000))"
proof
  show "guess_funding (JObj d) =
     Inr (case find (\<lambda>k. candidate_number (dict_get d k) \<noteq> None)
                 [''fundingRate'', ''funding'', ''fr'', ''funding_rate'', ''fundingRate8h''] of
            None \<Rightarrow> None
          | Some k \<Rightarrow> candidate_number (dict_get d k))"
    using guess_funding_loop_find [of funding_keys d]
    by (simp add: guess_funding_def funding_keys_def)
  show "guess_funding (JObj [(''funding'', JStr ''0.01%'')]) = Inr (Some (1 / 10000))"
    by (simp add: guess_funding_def funding_keys_def dict_get_def parser_defs)
qed

section \<open>Properties of pair selection and ordering\<close>

text \<open>The reversed sort permutes its input, orders it by descending key, and keeps the
  input order among equal keys.\<close>

lemma py_sort_desc_set [simp]: "set (py_sort_desc f xs) = set xs"
  by (simp add: py_sort_desc_def)

lemma py_sort_desc_length [simp]: "length (py_sort_desc f xs) = length xs"
  by (simp add: py_sort_desc_def)

lemma py_sort_desc_distinct [simp]: "distinct (py_sort_desc f xs) = distinct xs"
  by (simp add: py_sort_desc_def)

lemma py_sort_desc_sorted: "sorted_wrt (\<lambda>x y. f x \<ge> f y) (py_sort_desc f xs)"
proof -
  have "sorted (map f (sort_key f (rev xs)))" by (rule sorted_sort_key)
  then have "sorted_wrt (\<lambda>x y. f x \<le> f y) (sort_key f (rev xs))"
    by (simp add: sorted_wrt_map)
  then show ?thesis
    unfolding py_sort_desc_def by (simp add: sorted_wrt_rev)
qed

lemma py_sort_desc_stable:
  "filter (\<lambda>y. f y = k) (py_sort_desc f xs) = filter (\<lambda>y. f y = k) xs"
proof -
  have "filter (\<lambda>y. f y = k) (py_sort_desc f xs) = rev (filter (\<lambda>y. f y = k) (sort_key f (rev xs)))"
    by (simp add: py_sort_desc_def rev_filter)
  also have "\<dots> = rev (filter (\<lambda>y. f y = k) (rev xs))"
    by (simp add: sort_key_stable)
  also have "\<dots> = filter (\<lambda>y. f y = k) xs"
    by (simp add: rev_filter)
  finally show ?thesis .
qed

text \<open>The three branches of \<open>pick_pair_exchanges\<close>.\<close>

lemma pick_primary:
  "''binance'' \<in> fst ` set d \<Longrightarrow> ''okx'' \<in> fst ` set d \<Longrightarrow>
   pick_pair_exchanges d = (Some ''binance'', Some ''okx'')"
  by (simp add: pick_pair_exchanges_def)

lemma pick_few:
  "length d < 2 \<Longrightarrow> \<not> (''binance'' \<in> fst ` set d \<and> ''okx'' \<in> fst ` set d) \<Longrightarrow> pick_pair_exchanges d = (None, None)"
  by (auto simp add: pick_pair_exchanges_def)

lemma two_distinct_keys: 
  assumes "a \<in> fst ` set d" "b \<in> fst ` set d" "a \<noteq> b" shows "2 \<le> length d"
proof -
  have "{a, b} \<subseteq> set (map fst d)" using assms by auto
  then have "card {a, b} \<le> card (set (map fst d))" by (intro card_mono) auto
  also have "\<dots> \<le> length (map fst d)" by (rule card_length)
  finally show ?thesis using assms(3) by simp
qed

lemma pick_ranked:
  assumes nb: "\<not> (''binance'' \<in> fst ` set d \<and> ''okx'' \<in> fst ` set d)"
    and len: "2 \<le> length d"
    and dist: "distinct (map fst d)"
  shows "\<exists>a b rest. py_sort_desc (last_ts d) (map fst d) = a # b # rest
           \<and> pick_pair_exchanges d = (Some a, Some b)
           \<and> a \<noteq> b \<and> a \<in> fst ` set d \<and> b \<in> fst ` set d
           \<and> last_ts d b \<le> last_ts d a
           \<and> (\<forall>k \<in> fst ` set d. k \<noteq> a \<longrightarrow> last_ts d k \<le> last_ts d b)
           \<and> a = hd (filter (\<lambda>k. last_ts d k = last_ts d a) (map fst d))
           \<and> b = hd (filter (\<lambda>k. last_ts d k = last_ts d b) (filter (\<lambda>k. k \<noteq> a) (map fst d)))"
proof -
  let ?ks = "py_sort_desc (last_ts d) (map fst d)"
  have "2 \<le> length ?ks" using len by simp
  then obtain a b rest where ks: "?ks = a # b # rest"
    by (cases ?ks; cases "tl ?ks") auto
  have pick: "pick_pair_exchanges d = (Some a, Some b)"
    using nb len ks by (auto simp: pick_pair_exchanges_def Let_def)
  have dks: "distinct ?ks" using dist by simp
  have ab: "a \<noteq> b" and an: "a \<notin> set rest" and bn: "b \<notin> set rest" using dks ks by auto
  have sets: "set ?ks = fst ` set d" by simp
  have mem: "a \<in> fst ` set d" "b \<in> fst ` set d" using sets ks by auto
  have srt: "sorted_wrt (\<lambda>x y. last_ts d x \<ge> last_ts d y) (a # b # rest)"
    using py_sort_desc_sorted [of "last_ts d" "map fst d"] ks by simp
  then have le: "last_ts d b \<le> last_ts d a" and rest: "\<forall>k \<in> set rest. last_ts d k \<le> last_ts d b"
    by auto
  have others: "\<forall>k \<in> fst ` set d. k \<noteq> a \<longrightarrow> last_ts d k \<le> last_ts d b"
  proof (intro ballI impI)
    fix k assume "k \<in> fst ` set d" "k \<noteq> a"
    then have "k \<in> set (a # b # rest)" using sets ks by simp
    with \<open>k \<noteq> a\<close> rest show "last_ts d k \<le> last_ts d b" by auto
  qed
  have fa: "filter (\<lambda>k. last_ts d k = last_ts d a) (map fst d) = filter (\<lambda>k. last_ts d k = last_ts d a) (a # b # rest)"
    using py_sort_desc_stable [of "last_ts d" "last_ts d a" "map fst d"] ks by simp
  have ha: "a = hd (filter (\<lambda>k. last_ts d k = last_ts d a) (map fst d))"
    unfolding fa by simp
  have "filter (\<lambda>k. last_ts d k = last_ts d b) (filter (\<lambda>k. k \<noteq> a) (map fst d))
        = filter (\<lambda>k. k \<noteq> a) (filter (\<lambda>k. last_ts d k = last_ts d b) (map fst d))"
    by (simp add: conj_commute)
  also have "\<dots> = filter (\<lambda>k. k \<noteq> a) (filter (\<lambda>k. last_ts d k = last_ts d b) (a # b # rest))"
    using py_sort_desc_stable [of "last_ts d" "last_ts d b" "map fst d"] ks by simp
  also have "hd \<dots> = b" using ab by simp
  finally have hb: "b = hd (filter (\<lambda>k. last_ts d k = last_ts d b) (filter (\<lambda>k. k \<noteq> a) (map fst d)))"
    by simp
  show ?thesis using ks pick ab mem le others ha hb by blast
qed

text \<open>
  Claim C4. For the exchanges that report an instrument (a dict, so its keys are
  distinct): when \<open>binance\<close> and \<open>okx\<close> are both among them the pair is
  \<open>(binance, okx)\<close>, whatever the timestamps are; otherwise, with two exchanges or more,
  the pair is the first two of the exchanges ranked by the timestamp of their latest
  sample, latest first, so no other exchange has a later sample than the second of the
  pair, and among exchanges with equal timestamps the one inserted first ranks first;
  with fewer than two exchanges the pair is \<open>(None, None)\<close>. An empty series ranks as
  timestamp 0, a series that is not empty by the timestamp of its last point.
\<close>

theorem pick_pair_exchanges_rule:
  assumes "distinct (map fst d)"
  shows "(''binance'' \<in> fst ` set d \<and> ''okx'' \<in> fst ` set d \<longrightarrow>
            pick_pair_exchanges d = (Some ''binance'', Some ''okx''))
       \<and> (\<not> (''binance'' \<in> fst ` set d \<and> ''okx'' \<in> fst ` set d) \<and> 2 \<le> length d \<longrightarrow>
            (\<exists>a b rest.
               py_sort_desc (last_ts d) (map fst d) = a # b # rest
               \<and> pick_pair_exchanges d = (Some a, Some b)
               \<and> a \<noteq> b \<and> a \<in> fst ` set d \<and> b \<in> fst ` set d
               \<and> last_ts d b \<le> last_ts d a
               \<and> (\<forall>k \<in> fst ` set d. k \<noteq> a \<longrightarrow> last_ts d k \<le> last_ts d b)
               \<and> a = hd (filter (\<lambda>k. last_ts d k = last_ts d a) (map fst d))
               \<and> b = hd (filter (\<lambda>k. last_ts d k = last_ts d b)
                            (filter (\<lambda>k. k \<noteq> a) (map fst d)))))
       \<and> (length d < 2 \<longrightarrow> pick_pair_exchanges d = (None, None))
       \<and> (\<forall>k. map_of d k = Some [] \<longrightarrow> last_ts d k = 0)
       \<and> (\<forall>k q t x. map_of d k = Some (q @ [(t, x)]) \<longrightarrow> last_ts d k = t)"
proof (intro conjI impI allI)
  assume "''binance'' \<in> fst ` set d \<and> ''okx'' \<in> fst ` set d"
  then show "pick_pair_exchanges d = (Some ''binance'', Some ''okx'')"
    by (simp add: pick_primary)
next
  assume "\<not> (''binance'' \<in> fst ` set d \<and> ''okx'' \<in> fst ` set d) \<and> 2 \<le> length d"
  then show "\<exists>a b rest.
               py_sort_desc (last_ts d) (map fst d) = a # b # rest
               \<and> pick_pair_exchanges d = (Some a, Some b)
               \<and> a \<noteq> b \<and> a \<in> fst ` set d \<and> b \<in> fst ` set d
               \<and> last_ts d b \<le> last_ts d a
               \<and> (\<forall>k \<in> fst ` set d. k \<noteq> a \<longrightarrow> last_ts d k \<le> last_ts d b)
               \<and> a = hd (filter (\<lambda>k. last_ts d k = last_ts d a) (map fst d))
               \<and> b = hd (filter (\<lambda>k. last_ts d k = last_ts d b)
                            (filter (\<lambda>k. k \<noteq> a) (map fst d)))"
    using pick_ranked [of d] assms by blast
next
  assume len: "length d < 2"
  have "\<not> (''binance'' \<in> fst ` set d \<and> ''okx'' \<in> fst ` set d)"
  proof
    assume "''binance'' \<in> fst ` set d \<and> ''okx'' \<in> fst ` set d"
    then have "2 \<le> length d" by (intro two_distinct_keys [of "''binance''" d "''okx''"]) simp_all
    with len show False by simp
  qed
  with len show "pick_pair_exchanges d = (None, None)" by (rule pick_few)
next
  fix k assume "map_of d k = Some []"
  then show "last_ts d k = 0" by (simp add: last_ts_def)
next
  fix k q t x assume "map_of d k = Some (q @ [(t, x)])"
  then show "last_ts d k = t" by (simp add: last_ts_def)
qed

text \<open>The rule at three exchange dicts: ranked by recency, the fixed pair, and a single
  exchange.\<close>

theorem pick_pair_exchanges_rule_witness:
  "distinct (map fst [(''bybit'', [(1::int, 100::real)]), (''deribit'', [(2, 100)]), (''kraken'', [])])
   \<and> pick_pair_exchanges [(''bybit'', [(1, 100)]), (''deribit'', [(2, 100)]), (''kraken'', [])]
        = (Some ''deribit'', Some ''bybit'')
   \<and> pick_pair_exchanges [(''bybit'', [(1, 100)]), (''okx'', [(2, 100)]), (''binance'', [])]
        = (Some ''binance'', Some ''okx'')
   \<and> pick_pair_exchanges [(''binance'', [(1, 100)])] = (None, None)"
proof -
  have d1: "distinct (map fst [(''bybit'', [(1::int, 100::real)]), (''deribit'', [(2, 100)]), (''kraken'', [])])"
    by simp
  have d2: "distinct (map fst [(''bybit'', [(1::int, 100::real)]), (''okx'', [(2, 100)]), (''binance'', [])])"
    by simp
  have d3: "distinct (map fst [(''binance'', [(1::int, 100::real)])])" by simp
  have s: "py_sort_desc (last_ts [(''bybit'', [(1, 100)]), (''deribit'', [(2, 100)]), (''kraken'', [])])
             (map fst [(''bybit'', [(1::int, 100::real)]), (''deribit'', [(2, 100)]), (''kraken'', [])])
           = [''deribit'', ''bybit'', ''kraken'']"
    by (simp add: py_sort_desc_def last_ts_def)
  from pick_pair_exchanges_rule [OF d1] s
    pick_pair_exchanges_rule [OF d2] pick_pair_exchanges_rule [OF d3]
  show ?thesis by simp
qed

section \<open>Properties of the query\<close>


lemma api_data_Success:
  "api_data w st = (Success items, c) \<Longrightarrow> api_body w st = Inr items \<and> c = 200"
  by (auto simp: api_data_def split: sum.splits)




text \<open>
  Claim C8. Whatever the body of the \<open>try\<close> in \<open>api_data\<close> raises becomes the failure
  payload with status 500, and a result of the body becomes the success payload with
  status 200; \<open>api_data\<close> answers with one of the two for every request and store, and
  the status tells them apart. A \<open>window\<close> text that \<open>int\<close> rejects is such a failure.
\<close>

theorem api_data_failure_payload:
  "(api_body w st = Inl e \<longrightarrow> api_data w st = (Failure e, 500))
   \<and> (api_body w st = Inr items \<longrightarrow> api_data w st = (Success items, 200))
   \<and> ((\<exists>items'. api_data w st = (Success items', 200)) \<or> (\<exists>e'. api_data w st = (Failure e', 500)))
   \<and> (py_int s = Inl e \<longrightarrow>
        api_body (Some s) st = Inl e \<and> api_data (Some s) st = (Failure e, 500))
   \<and> ((snd (api_data w st) = 500) = (\<exists>e'. fst (api_data w st) = Failure e'))"
  by (cases "api_body w st") (auto simp: api_data_def api_body_def)

text \<open>The request \<open>?window=abc\<close>.\<close>

theorem api_data_failure_payload_witness:
  "py_int ''abc'' = Inl ValueError
   \<and> api_body (Some ''abc'') two_symbol_store = Inl ValueError
   \<and> api_data (Some ''abc'') two_symbol_store = (Failure ValueError, 500)"
proof -
  have p: "py_int ''abc'' = Inl ValueError"
    by (simp add: py_int_def py_strip_def is_space_def take_sign_def digitpart_def digit_val_def)
  from api_data_failure_payload [of "Some ''abc''" two_symbol_store ValueError "[]" "''abc''"] p
  show ?thesis by simp
qed

section \<open>Properties of the store\<close>

lemma list_all_update:
  "P (k, v) \<Longrightarrow> list_all P al \<Longrightarrow> list_all P (AList.update k v al)"
  by (induction al) auto

lemma deque_append_length: "length q \<le> C \<Longrightarrow> length (deque_append C q x) \<le> C"
  by (auto simp: deque_append_def Let_def)


lemma ring_append_bounded:
  assumes "ring_bounded C r"
  shows "ring_bounded C (ring_append C r name exch p)"
proof -
  define m where "m = (case map_of r name of None \<Rightarrow> [] | Some m' \<Rightarrow> m')"
  define q where "q = (case map_of m exch of None \<Rightarrow> [] | Some q' \<Rightarrow> q')"
  have m: "list_all (\<lambda>e. length (snd e) \<le> C) m"
  proof (cases "map_of r name")
    case None
    then show ?thesis by (simp add: m_def)
  next
    case (Some m')
    then have "(name, m') \<in> set r" by (rule map_of_SomeD)
    with assms Some show ?thesis by (auto simp: m_def ring_bounded_def list_all_iff)
  qed
  have q: "length q \<le> C"
  proof (cases "map_of m exch")
    case None
    then show ?thesis by (simp add: q_def)
  next
    case (Some q')
    then have "(exch, q') \<in> set m" by (rule map_of_SomeD)
    with m Some show ?thesis by (auto simp: q_def list_all_iff)
  qed
  have "list_all (\<lambda>e. length (snd e) \<le> C) (AList.update exch (deque_append C q p) m)"
    using m q by (intro list_all_update) (simp_all add: deque_append_length)
  then have "ring_bounded C (AList.update name (AList.update exch (deque_append C q p) m) r)"
    unfolding ring_bounded_def using assms
    by (intro list_all_update) (simp_all add: ring_bounded_def)
  then show ?thesis by (simp add: ring_append_def m_def q_def Let_def)
qed

lemma write_row_bounded:
  "store_bounded st \<Longrightarrow> store_bounded (fst (write_row exch ts st r))"
  by (auto simp: write_row_def store_bounded_def Let_def ring_append_bounded
           split: option.splits sum.splits)

lemma write_rows_bounded:
  "store_bounded st \<Longrightarrow> store_bounded (fst (write_rows exch ts st rs))"
proof (induction rs arbitrary: st)
  case Nil
  then show ?case by simp
next
  case (Cons r rs)
  from Cons.prems have b: "store_bounded (fst (write_row exch ts st r))"
    by (rule write_row_bounded)
  show ?case
  proof (cases "write_row exch ts st r")
    case (Pair st' err)
    with b have "store_bounded st'" by simp
    with Pair Cons.IH [of st'] show ?thesis by (cases err) auto
  qed
qed

lemma write_sections_bounded:
  "store_bounded st \<Longrightarrow> store_bounded (fst (write_sections ts st secs))"
proof (induction secs arbitrary: st)
  case Nil
  then show ?case by simp
next
  case (Cons sec secs)
  obtain exch rows where sec: "sec = (exch, rows)" by (cases sec)
  from Cons.prems have b: "store_bounded (fst (write_rows exch ts st rows))"
    by (rule write_rows_bounded)
  show ?case
  proof (cases "write_rows exch ts st rows")
    case (Pair st' err)
    with b have "store_bounded st'" by simp
    with Pair sec Cons.IH [of st'] show ?thesis by (cases err) auto
  qed
qed

lemma fetch_cycle_bounded:
  "store_bounded st \<Longrightarrow> store_bounded (fetch_cycle st upstream ts)"
  by (auto simp: fetch_cycle_def write_sections_bounded split: option.splits sum.splits)

lemma reachable_bounded: "reachable st \<Longrightarrow> store_bounded st"
proof (induction rule: reachable.induct)
  case reachable_init
  then show ?case by (simp add: store_bounded_def empty_store_def ring_bounded_def)
next
  case (reachable_step st upstream ts)
  then show ?case by (simp add: fetch_cycle_bounded)
qed






section \<open>Properties of the rolling statistics\<close>

text \<open>The index loop pairs the two series by rank from their recent ends.\<close>

lemma zip_rev_nth:
  "map (\<lambda>i. (xs ! (length xs - 1 - i), ys ! (length ys - 1 - i))) [0..<min (length xs) (length ys)]
     = zip (rev xs) (rev ys)"
  by (rule nth_equalityI) (simp_all add: rev_nth)

lemma concat_option_map_filter:
  "concat (map (\<lambda>p. case f p of None \<Rightarrow> [] | Some x \<Rightarrow> [x]) zs) = List.map_filter f zs"
  by (induction zs) (auto simp: List.map_filter_def split: option.splits)

lemma spread_samples_zip:
  "spread_samples seriesA seriesB =
     List.map_filter (\<lambda>(pA, pB). spread_sample pA pB) (zip (rev seriesA) (rev seriesB))"
proof -
  let ?g = "\<lambda>(pA, pB). case spread_sample pA pB of None \<Rightarrow> [] | Some x \<Rightarrow> [x]"
  let ?pair = "\<lambda>i. (seriesA ! (length seriesA - 1 - i), seriesB ! (length seriesB - 1 - i))"
  let ?n = "min (length seriesA) (length seriesB)"
  have "spread_samples seriesA seriesB = concat (map (\<lambda>i. ?g (?pair i)) [0..<?n])"
    unfolding spread_samples_def spread_sample_def Let_def
    by (intro arg_cong [of _ _ concat] map_cong refl) simp
  also have "\<dots> = concat (map ?g (map ?pair [0..<?n]))"
    by (simp add: comp_def)
  also have "\<dots> = concat (map ?g (zip (rev seriesA) (rev seriesB)))"
    by (simp only: zip_rev_nth)
  also have "\<dots> = List.map_filter (\<lambda>(pA, pB). spread_sample pA pB) (zip (rev seriesA) (rev seriesB))"
    using concat_option_map_filter [of "\<lambda>(pA, pB). spread_sample pA pB" "zip (rev seriesA) (rev seriesB)"]
    by (simp add: case_prod_unfold)
  finally show ?thesis .
qed

lemma rolling_stats_eq:
  "rolling_stats S =
     (if length S = 0 then (None, None, 0)
      else if length S = 1 then (Some (mean S), Some 0, 1)
      else (Some (mean S), Some (bessel_std S), length S))"
proof -
  have "length S = 1 \<Longrightarrow> S ! 0 = mean S"
    by (cases S) (auto simp: mean_def)
  then show ?thesis
    by (auto simp: rolling_stats_def mean_def bessel_std_def Let_def)
qed

lemma recent_zero: "recent xs 0 = xs"
  by (simp add: recent_def)

text \<open>The rolling-statistics test of the specification: samples 1, 2, 3 and a current
  spread of 4.\<close>

lemma spread_samples_example:
  "spread_samples [(1, 197), (2, 99), (3, 199)] [(1, 203), (2, 101), (3, 201)] = [1, 2, 3]"
  by (simp add: spread_samples_def Let_def)

lemma rolling_stats_example: "rolling_stats [1, 2, 3] = (Some 2, Some 1, 3)"
  by (simp add: rolling_stats_def Let_def power2_eq_square)

lemma stats_example:
  "stats_engine 300 [(1, 197), (2, 99), (3, 199)] [(1, 203), (2, 101), (3, 201)] 4
     = (Some 2, Some 1, 3, Some 2)"
  by (simp add: stats_engine_def recent_def spread_samples_example rolling_stats_example
      zscore_of_def Let_def)

text \<open>
  Claim C3. For every window count \<open>W\<close>, the two stored series of the selected exchanges
  and the current spread: let the sample sequence pair the \<open>i\<close>-th most recent points of
  the two recent series (the slices \<open>[-W:]\<close>), for \<open>i\<close> below the shorter length, each
  pair giving \<open>(mB - mA) / avg * 100\<close> and no sample when its average mid is not
  positive. The statistics the query path computes from it are: the arithmetic mean of
  the sequence; the standard deviation with Bessel's correction for two samples or more,
  0 for one sample, and no mean and no deviation for none; and the z-score
  \<open>(spread_pct - mean) / std\<close> exactly when the deviation is above \<open>1e-9\<close> and the mean
  is there, otherwise none. (The record then carries mean and z-score rounded to 6 and
  3 decimals, see \<open>build_item\<close>; the deviation is not part of the record.)
\<close>

theorem stats_engine_spec:
  "stats_engine W qA qB spread_pct =
     (let S = List.map_filter (\<lambda>(pA, pB). spread_sample pA pB)
                (zip (rev (recent qA W)) (rev (recent qB W)));
          mu = (if length S = 0 then None else Some (mean S));
          sd = (if length S = 0 then None
                else if length S = 1 then Some 0
                else Some (bessel_std S))
      in (mu, sd, length S,
          (case (sd, mu) of
             (Some s, Some m) \<Rightarrow> if s > 1 / 10 ^ 9 then Some ((spread_pct - m) / s) else None
           | _ \<Rightarrow> None)))"
proof -
  let ?S = "spread_samples (recent qA W) (recent qB W)"
  have S: "List.map_filter (\<lambda>(pA, pB). spread_sample pA pB)
             (zip (rev (recent qA W)) (rev (recent qB W))) = ?S"
    by (simp add: spread_samples_zip)
  have "stats_engine W qA qB spread_pct =
     (let mu = (if length ?S = 0 then None else Some (mean ?S));
          sd = (if length ?S = 0 then None
                else if length ?S = 1 then Some 0
                else Some (bessel_std ?S))
      in (mu, sd, length ?S,
          (case (sd, mu) of
             (Some s, Some m) \<Rightarrow> if s > 1 / 10 ^ 9 then Some ((spread_pct - m) / s) else None
           | _ \<Rightarrow> None)))"
    by (simp add: stats_engine_def rolling_stats_eq zscore_of_def Let_def)
  then show ?thesis unfolding S [symmetric] by (simp add: Let_def)
qed

text \<open>Three ticks whose rank-paired spreads are 1, 2 and 3 percent, with a current spread
  of 4: mean 2, deviation 1, z-score 2.\<close>

theorem stats_engine_spec_witness:
  "stats_engine 300 [(1, 197), (2, 99), (3, 199)] [(1, 203), (2, 101), (3, 201)] 4
     = (Some 2, Some 1, 3, Some 2)
   \<and> mean [1, 2, 3] = 2 \<and> bessel_std [1, 2, 3] = 1"
proof -
  have S: "List.map_filter (\<lambda>(pA, pB). spread_sample pA pB)
             (zip (rev (recent [(1, 197), (2, 99), (3, 199)] 300))
                  (rev (recent [(1, 203), (2, 101), (3, 201)] 300))) = [1, 2, 3]"
    by (simp add: recent_def List.map_filter_def spread_sample_def)
  have m: "mean [1, 2, 3] = 2" by (simp add: mean_def)
  have b: "bessel_std [1, 2, 3] = 1" by (simp add: bessel_std_def m power2_eq_square)
  from stats_engine_spec [of 300 "[(1, 197), (2, 99), (3, 199)]" "[(1, 203), (2, 101), (3, 201)]" 4]
  show ?thesis unfolding S Let_def by (simp add: m b)
qed

section \<open>The statistics in the record\<close>

text \<open>What a record of the response holds, for an instrument that is not skipped.\<close>

lemma build_item_SomeD:
  assumes "build_item w fring (symbol, m) = Some it"
  obtains midA midB where
    "pick_pair_exchanges m = (Some (item_exA it), Some (item_exB it))"
    "latest (series_of m (item_exA it)) = Some midA"
    "latest (series_of m (item_exB it)) = Some midB"
    "0 < (midA + midB) / 2"
    "item_symbol it = symbol" "item_window_sec it = w"
    "item_spread_pct it = py_round ((midB - midA) / ((midA + midB) / 2) * 100) 6"
    "item_avg_spread_pct it = map_option (\<lambda>x. py_round x 6)
       (fst (stats_engine w (series_of m (item_exA it)) (series_of m (item_exB it))
               ((midB - midA) / ((midA + midB) / 2) * 100)))"
    "item_samples it =
       fst (snd (snd (stats_engine w (series_of m (item_exA it)) (series_of m (item_exB it))
               ((midB - midA) / ((midA + midB) / 2) * 100))))"
    "item_zscore it = map_option (\<lambda>x. py_round x 3)
       (snd (snd (snd (stats_engine w (series_of m (item_exA it)) (series_of m (item_exB it))
               ((midB - midA) / ((midA + midB) / 2) * 100)))))"
proof -
  from assms obtain exA exB where pk: "pick_pair_exchanges m = (Some exA, Some exB)"
    by (cases "pick_pair_exchanges m"; cases "fst (pick_pair_exchanges m)"; cases "snd (pick_pair_exchanges m)")
       (auto simp: build_item_def split: if_splits)
  from assms pk obtain midA midB where
    la: "latest (series_of m exA) = Some midA" and lb: "latest (series_of m exB) = Some midB"
    by (cases "latest (series_of m exA)"; cases "latest (series_of m exB)")
       (auto simp: build_item_def split: if_splits)
  obtain avg sd n z where st: "stats_engine w (series_of m exA) (series_of m exB)
         ((midB - midA) / ((midA + midB) / 2) * 100) = (avg, sd, n, z)"
    by (metis prod_cases4)
  from assms pk la lb st have pos: "0 < (midA + midB) / 2"
    by (auto simp: build_item_def Let_def split: if_splits)
  from assms pk la lb st pos have it: "it = \<lparr>item_symbol = symbol,
                                       item_exA = exA, item_exB = exB,
                                       item_midA = py_round midA 10,
                                       item_midB = py_round midB 10,
                                       item_spread_pct = py_round ((midB - midA) / ((midA + midB) / 2) * 100) 6,
                                       item_avg_spread_pct = map_option (\<lambda>x. py_round x 6) avg,
                                       item_zscore = map_option (\<lambda>x. py_round x 3) z,
                                       item_fundingA = latest (series_of (case map_of fring symbol of None \<Rightarrow> [] | Some m \<Rightarrow> m) exA),
                                       item_fundingB = latest (series_of (case map_of fring symbol of None \<Rightarrow> [] | Some m \<Rightarrow> m) exB),
                                       item_funding_avg = funding_avg (latest (series_of (case map_of fring symbol of None \<Rightarrow> [] | Some m \<Rightarrow> m) exA)) (latest (series_of (case map_of fring symbol of None \<Rightarrow> [] | Some m \<Rightarrow> m) exB)),
                                       item_window_sec = w,
                                       item_samples = n\<rparr>"
    by (auto simp: build_item_def Let_def split: if_splits)
  show ?thesis
    using pk la lb pos st by (intro that [of midA midB]) (simp_all add: it)
qed

lemma latest_Some: "latest q = Some x \<Longrightarrow> q \<noteq> [] \<and> snd (last q) = x"
  by (auto simp: latest_def split: if_splits)

lemma spread_samples_nonempty:
  assumes "qA \<noteq> []" "qB \<noteq> []" "0 < (snd (last qA) + snd (last qB)) / 2"
  shows "spread_samples qA qB \<noteq> []"
proof -
  from assms(1,2) obtain ra rb where r: "rev qA = last qA # ra" "rev qB = last qB # rb"
    by (metis last_rev list.exhaust_sel rev_is_Nil_conv rev_rev_ident)
  have z: "zip (rev qA) (rev qB) = (last qA, last qB) # zip ra rb" unfolding r by simp
  from assms(3) obtain x where "spread_sample (last qA) (last qB) = Some x"
    by (simp add: spread_sample_def)
  then show ?thesis
    unfolding spread_samples_zip z by (simp add: List.map_filter_simps)
qed

lemma series_of_bounded:
  assumes "ring_bounded C r" "(symbol, m) \<in> set r"
  shows "length (series_of m ex) \<le> C"
proof (cases "map_of m ex")
  case None
  then show ?thesis by (simp add: series_of_def)
next
  case (Some q)
  then have "(ex, q) \<in> set m" by (rule map_of_SomeD)
  with assms Some show ?thesis
    unfolding ring_bounded_def list_all_iff series_of_def by fastforce
qed

lemma length_map_filter_le: "length (List.map_filter f zs) \<le> length zs"
  by (simp add: List.map_filter_def)

lemma length_spread_samples:
  "length (spread_samples qA qB) \<le> min (length qA) (length qB)"
  using length_map_filter_le [of "\<lambda>(pA, pB). spread_sample pA pB" "zip (rev qA) (rev qB)"]
  by (simp add: spread_samples_zip)

lemma map_filter_SomeD: "y \<in> set (List.map_filter f xs) \<Longrightarrow> \<exists>x \<in> set xs. f x = Some y"
  by (auto simp: List.map_filter_def)

lemma py_int_zero: "py_int ''0'' = Inr 0"
  by (simp add: py_int_def py_strip_def is_space_def take_sign_def digitpart_def digit_val_def
      digits_value_def)

lemma api_body_items:
  assumes "api_body (Some s) st = Inr items" "py_int s = Inr w" "it \<in> set items"
  obtains symbol m where "(symbol, m) \<in> set (ring_prices st)"
    "build_item w (ring_funding st) (symbol, m) = Some it"
proof -
  from assms have "it \<in> set (List.map_filter (build_item w (ring_funding st)) (ring_prices st))"
    by (auto simp: api_body_def Let_def)
  then obtain e where e: "e \<in> set (ring_prices st)" "build_item w (ring_funding st) e = Some it"
    by (auto dest: map_filter_SomeD)
  obtain symbol m where "e = (symbol, m)" by (cases e)
  with e show ?thesis using that [of symbol m] by simp
qed

text \<open>
  Claim C10. With \<open>window = 0\<close> the slice \<open>[-0:]\<close> is the whole series, so the baseline
  statistics are those of the rank-paired samples over everything stored for the two
  selected exchanges. Every record of a response to \<open>?window=0\<close> therefore counts the
  samples of the two whole series: at least one, at most the length of the shorter series
  (and at most the capacity 6000 in a store the process can reach), and its mean is
  there, not absent with zero samples.
\<close>

theorem window_zero_full_series:
  "recent q 0 = q
   \<and> stats_engine 0 qA qB spread_pct =
       (case rolling_stats (spread_samples qA qB) of
          (avg_spread, std_spread, samples) \<Rightarrow>
            (avg_spread, std_spread, samples, zscore_of spread_pct avg_spread std_spread))
   \<and> (api_data (Some ''0'') st = (Success items, 200) \<and> it \<in> set items \<longrightarrow>
        (\<exists>symbol m. (symbol, m) \<in> set (ring_prices st)
           \<and> item_symbol it = symbol
           \<and> item_samples it =
               length (spread_samples (series_of m (item_exA it)) (series_of m (item_exB it)))
           \<and> 1 \<le> item_samples it
           \<and> item_samples it \<le> min (length (series_of m (item_exA it)))
                                    (length (series_of m (item_exB it)))
           \<and> item_avg_spread_pct it \<noteq> None
           \<and> (reachable st \<longrightarrow> item_samples it \<le> 6000)))"
proof (intro conjI impI)
  show "recent q 0 = q" by (rule recent_zero)
  show "stats_engine 0 qA qB spread_pct =
       (case rolling_stats (spread_samples qA qB) of
          (avg_spread, std_spread, samples) \<Rightarrow>
            (avg_spread, std_spread, samples, zscore_of spread_pct avg_spread std_spread))"
    by (simp add: stats_engine_def recent_zero)
next
  assume a: "api_data (Some ''0'') st = (Success items, 200) \<and> it \<in> set items"
  then have "api_body (Some ''0'') st = Inr items" by (simp add: api_data_Success)
  then obtain symbol m where sm: "(symbol, m) \<in> set (ring_prices st)"
      "build_item 0 (ring_funding st) (symbol, m) = Some it"
    using a by (auto elim: api_body_items [OF _ py_int_zero])
  let ?qA = "series_of m (item_exA it)" and ?qB = "series_of m (item_exB it)"
  let ?S = "spread_samples ?qA ?qB"
  from sm(2) obtain midA midB where
    b: "latest ?qA = Some midA" "latest ?qB = Some midB" "0 < (midA + midB) / 2"
       "item_symbol it = symbol"
    and av0: "item_avg_spread_pct it = map_option (\<lambda>x. py_round x 6)
       (fst (stats_engine 0 ?qA ?qB ((midB - midA) / ((midA + midB) / 2) * 100)))"
    and n0: "item_samples it =
       fst (snd (snd (stats_engine 0 ?qA ?qB ((midB - midA) / ((midA + midB) / 2) * 100))))"
    by (rule build_item_SomeD)
  from b(1,2,3) have ne: "?S \<noteq> []"
    by (intro spread_samples_nonempty) (auto dest: latest_Some)
  have rs: "snd (snd (rolling_stats ?S)) = length ?S"
    by (auto simp: rolling_stats_def Let_def)
  from n0 rs have n: "item_samples it = length ?S"
    by (simp add: stats_engine_def recent_zero split: prod.splits)
  from av0 have av: "item_avg_spread_pct it = map_option (\<lambda>x. py_round x 6) (fst (rolling_stats ?S))"
    by (simp add: stats_engine_def recent_zero split: prod.splits)
  from ne have "fst (rolling_stats ?S) \<noteq> None"
    by (auto simp: rolling_stats_def Let_def)
  with av have av': "item_avg_spread_pct it \<noteq> None" by simp
  from ne n have one: "1 \<le> item_samples it" by (cases ?S) auto
  from n have le: "item_samples it \<le> min (length ?qA) (length ?qB)"
    using length_spread_samples [of ?qA ?qB] by simp
  have cap: "reachable st \<longrightarrow> item_samples it \<le> 6000"
  proof
    assume "reachable st"
    then have "ring_bounded PRICE_MAXLEN (ring_prices st)"
      using reachable_bounded by (simp add: store_bounded_def)
    with sm(1) have "length ?qA \<le> 6000"
      using series_of_bounded [of PRICE_MAXLEN "ring_prices st" symbol m] by (simp add: PRICE_MAXLEN_def)
    with le show "item_samples it \<le> 6000" by simp
  qed
  from sm(1) b(4) n one le av' cap
  show "\<exists>symbol m. (symbol, m) \<in> set (ring_prices st)
           \<and> item_symbol it = symbol
           \<and> item_samples it =
               length (spread_samples (series_of m (item_exA it)) (series_of m (item_exB it)))
           \<and> 1 \<le> item_samples it
           \<and> item_samples it \<le> min (length (series_of m (item_exA it)))
                                    (length (series_of m (item_exB it)))
           \<and> item_avg_spread_pct it \<noteq> None
           \<and> (reachable st \<longrightarrow> item_samples it \<le> 6000)"
    by blast
qed

text \<open>Two fetches of the same two quotes, then a query with \<open>?window=0\<close>: both stored
  ticks are sampled.\<close>

lemma two_tick_store_fetched:
  "fetch_cycle (fetch_cycle empty_store (Some two_exchange_doc) 1) (Some two_exchange_doc) 2
     = two_tick_store"
  by (simp add: fetch_cycle_def two_exchange_doc_def two_tick_store_def empty_store_def
      parse_perp_sections_def dict_get_def
      has_tag_def py_lower_def lower_char_def parse_row_def guess_funding_def funding_keys_def
      exchange_name_def py_strip_def write_row_def mid_from_bid_ask_def mid_try_def
      ring_append_def deque_append_def PRICE_MAXLEN_def Let_def)

lemma two_tick_store_reachable: "reachable two_tick_store"
  unfolding two_tick_store_fetched [symmetric]
  by (intro reachable_step reachable_init)

lemma two_tick_stats:
  "stats_engine 0 [(1, 99), (2, 99)] [(1, 101), (2, 101)] 2 = (Some 2, Some 0, 2, None)"
proof -
  have s: "spread_samples [(1, 99), (2, 99)] [(1, 101), (2, 101)] = [2, 2]"
    by (simp add: spread_samples_def Let_def)
  have r: "rolling_stats [2, 2] = (Some 2, Some 0, 2)"
    by (simp add: rolling_stats_def Let_def)
  show ?thesis
    by (simp add: stats_engine_def recent_zero s r zscore_of_def)
qed

theorem window_zero_full_series_witness:
  "reachable two_tick_store
   \<and> (\<exists>it. api_data (Some ''0'') two_tick_store = (Success [it], 200)
          \<and> item_exA it = ''bybit'' \<and> item_exB it = ''okx''
          \<and> item_window_sec it = 0
          \<and> item_samples it = 2 \<and> item_avg_spread_pct it = Some 2
          \<and> 1 \<le> item_samples it \<and> item_samples it \<le> 6000)"
proof -
  have "\<exists>it. api_data (Some ''0'') two_tick_store = (Success [it], 200)
          \<and> item_exA it = ''bybit'' \<and> item_exB it = ''okx''
          \<and> item_window_sec it = 0
          \<and> item_samples it = 2 \<and> item_avg_spread_pct it = Some 2"
    by (simp add: two_tick_store_def api_data_def api_body_def build_item_def
        pick_pair_exchanges_def series_of_def latest_def funding_avg_def py_round_def
        round_half_even_def py_sort_desc_def List.map_filter_def last_ts_def
        py_int_zero two_tick_stats Let_def)
  then obtain it where i: "api_data (Some ''0'') two_tick_store = (Success [it], 200)
          \<and> item_exA it = ''bybit'' \<and> item_exB it = ''okx''
          \<and> item_window_sec it = 0
          \<and> item_samples it = 2 \<and> item_avg_spread_pct it = Some 2" ..
  then have a: "api_data (Some ''0'') two_tick_store = (Success [it], 200) \<and> it \<in> set [it]"
    by simp
  from window_zero_full_series [of "[]" "[]" "[]" 0 two_tick_store "[it]" it] a
  have "1 \<le> item_samples it \<and> (reachable two_tick_store \<longrightarrow> item_samples it \<le> 6000)"
    by blast
  with two_tick_store_reachable i show ?thesis by (intro conjI exI [of _ it]) simp_all
qed

end
